theory Spec2Isabelle
  imports Complex_Main
begin

section \<open>Shallow embedding of backend/main.py\<close>

text \<open>
  The service has three request handlers and one inference function. Everything the
  handlers do beyond computing a value is made explicit here: the upload directory is a
  map from paths to file contents, the calls of the pretrained models and the messages
  given to the logger are recorded in a trace, and every \<^verbatim>\<open>raise\<close> is a
  value of a sum type. The third-party libraries (PIL, torchvision, transformers, gTTS,
  uuid, the operating system's file I/O) are parameters, collected in the record
  \<open>env\<close>; each of them returns either the message of the exception it raises or its
  value.
\<close>

subsection \<open>Python strings and paths\<close>

type_synonym path = string
type_synonym bytes = "char list"

text \<open>
  \<^verbatim>\<open>str.lower()\<close>. On the ASCII letters it maps \<open>A..Z\<close> to \<open>a..z\<close>; every
  other byte is kept. (A non-ASCII character is lowered by Python to non-ASCII characters,
  or to \<open>k\<close> or \<open>i\<close>, never to a letter of an allowed extension, so the membership test below
  is the same.)
\<close>

definition lower_chr :: "char \<Rightarrow> char" where
  "lower_chr c =
     (case map_of (zip ''ABCDEFGHIJKLMNOPQRSTUVWXYZ'' ''abcdefghijklmnopqrstuvwxyz'') c of
        Some d \<Rightarrow> d
      | None \<Rightarrow> c)"

definition lower :: "string \<Rightarrow> string" where
  "lower s = map lower_chr s"

text \<open>
  \<^verbatim>\<open>s.split(sep)\<close> for a separator of one character: the pieces between the
  separators, in order; the accumulator holds the current piece reversed.
\<close>

fun split_acc :: "char \<Rightarrow> string \<Rightarrow> string \<Rightarrow> string list" where
  "split_acc sep acc [] = [rev acc]"
| "split_acc sep acc (x # xs) =
     (if x = sep then rev acc # split_acc sep [] xs else split_acc sep (x # acc) xs)"

definition split :: "string \<Rightarrow> char \<Rightarrow> string list" where
  "split s sep = split_acc sep [] s"

text \<open>
  \<^verbatim>\<open>s.replace(old, new)\<close>: every occurrence of \<open>old\<close>, found from left to right
  without overlap, is replaced. With an empty \<open>old\<close> Python inserts \<open>new\<close> before every
  character and at the end.
\<close>

fun replace_from :: "string \<Rightarrow> string \<Rightarrow> string \<Rightarrow> string" where
  "replace_from old new [] = []"
| "replace_from old new (x # xs) =
     (if old \<noteq> [] \<and> take (length old) (x # xs) = old
      then new @ replace_from old new (drop (length old - 1) xs)
      else x # replace_from old new xs)"

definition replace :: "string \<Rightarrow> string \<Rightarrow> string \<Rightarrow> string" where
  "replace s old new =
     (if old = [] then new @ concat (map (\<lambda>c. c # new) s) else replace_from old new s)"

text \<open>
  \<^verbatim>\<open>os.path.join(a, b)\<close> and \<^verbatim>\<open>os.path.basename(p)\<close> of posixpath:
  an absolute second component discards the first; the base name is what follows the last
  slash.
\<close>

definition path_join :: "path \<Rightarrow> path \<Rightarrow> path" where
  "path_join a b =
     (if b \<noteq> [] \<and> hd b = CHR ''/'' then b
      else if a = [] \<or> last a = CHR ''/'' then a @ b
      else a @ ''/'' @ b)"

fun rfind :: "string \<Rightarrow> char \<Rightarrow> int" where
  "rfind [] c = - 1"
| "rfind (x # xs) c =
     (let r = rfind xs c in if 0 \<le> r then r + 1 else if x = c then 0 else - 1)"

definition basename :: "path \<Rightarrow> path" where
  "basename p = drop (nat (rfind p (CHR ''/'') + 1)) p"

text \<open>
  \<^verbatim>\<open>xs[-1]\<close> and \<^verbatim>\<open>xs[0]\<close>: Python raises IndexError on an empty
  sequence.
\<close>

definition index_last :: "'a list \<Rightarrow> string + 'a" where
  "index_last xs = (if xs = [] then Inl ''list index out of range'' else Inr (last xs))"

definition index_first :: "'a list \<Rightarrow> string + 'a" where
  "index_first xs = (case xs of [] \<Rightarrow> Inl ''list index out of range'' | x # _ \<Rightarrow> Inr x)"

subsection \<open>Exceptions, responses, the world\<close>

text \<open>
  \<open>HTTPException status detail\<close> is FastAPI's exception, which the framework turns into
  a response with that status; \<open>Exception msg\<close> is any other exception \<open>e\<close> with
  \<open>str(e) = msg\<close>.
\<close>

datatype py_exn = HTTPException nat string | Exception string

datatype response =
    JSONResponse "(string \<times> string) list"
  | FileResponse path string

text \<open>
  The trace records what was given to the logger and which model was called:
  \<open>Invoked m\<close> is added when the handler enters the stage that calls \<open>m\<close>.
\<close>

datatype model = Detector | Captioner | Speech

datatype event = Logged string | Invoked model

record world =
  files :: "path \<rightharpoonup> bytes"
  trace :: "event list"

definition logger_error :: "string \<Rightarrow> world \<Rightarrow> world" where
  "logger_error msg w = w\<lparr>trace := trace w @ [Logged msg]\<rparr>"

definition invoke :: "model \<Rightarrow> world \<Rightarrow> world" where
  "invoke m w = w\<lparr>trace := trace w @ [Invoked m]\<rparr>"

text \<open>
  A file object, as \<^verbatim>\<open>file.file\<close>: its data and the position of the next read.
  \<^verbatim>\<open>seek(offset, whence)\<close> sets the position from the start (whence 0), the
  current position (1) or the end (2).
\<close>

record fileobj =
  data :: bytes
  pos :: nat

definition seek :: "fileobj \<Rightarrow> nat \<Rightarrow> nat \<Rightarrow> fileobj" where
  "seek f offset whence =
     (if whence = 0 then f\<lparr>pos := offset\<rparr>
      else if whence = 1 then f\<lparr>pos := pos f + offset\<rparr>
      else f\<lparr>pos := length (data f) + offset\<rparr>)"

definition tell :: "fileobj \<Rightarrow> nat" where
  "tell f = pos f"

definition read_rest :: "fileobj \<Rightarrow> bytes" where
  "read_rest f = drop (pos f) (data f)"

record upload =
  filename :: string
  file_obj :: fileobj

subsection \<open>The libraries\<close>

text \<open>
  One detection result of torchvision: the boxes, labels and scores of the \<open>N\<close> objects
  found, here as a list of \<open>N\<close> triples. A score is modelled by its exact value.
\<close>

type_synonym box = "real \<times> real \<times> real \<times> real"

record detection =
  box_of :: box
  label_of :: nat
  score_of :: real

text \<open>
  What writing a file can do: succeed, or raise with a message, leaving either nothing
  new at the path or a partial file.
\<close>

datatype write_outcome = Written | WriteFailed string "bytes option"

datatype save_outcome = Saved bytes | SaveFailed string "bytes option"

record ('img, 'tns, 'enc, 'ids) env =
  uuid4 :: string
  copy_to_disk :: "path \<Rightarrow> bytes \<Rightarrow> write_outcome"
  Image_open :: "(path \<rightharpoonup> bytes) \<Rightarrow> path \<Rightarrow> string + 'img"
  convert :: "'img \<Rightarrow> string \<Rightarrow> string + 'img"
  to_tensor :: "'img \<Rightarrow> string + 'tns"
  object_detector :: "'tns \<Rightarrow> string + detection list list"
  caption_processor :: "'img \<Rightarrow> string \<Rightarrow> string + 'enc"
  generate :: "'enc \<Rightarrow> nat \<Rightarrow> string + 'ids list"
  decode :: "'ids \<Rightarrow> bool \<Rightarrow> string + string"
  gTTS :: "string \<Rightarrow> string option"
  tts_save :: "string \<Rightarrow> path \<Rightarrow> save_outcome"

text \<open>
  The text of \<^verbatim>\<open>str(uuid.uuid4())\<close>: 36 characters, lower-case hexadecimal
  digits in groups of 8, 4, 4, 4 and 12 separated by hyphens, the version digit 4 and a
  variant digit among 8, 9, a, b.
\<close>

definition is_uuid4_str :: "string \<Rightarrow> bool" where
  "is_uuid4_str u \<longleftrightarrow>
     length u = 36 \<and>
     list_all (\<lambda>(i, c).
        if i \<in> {8, 13, 18, 23} then c = CHR ''-''
        else if i = 14 then c = CHR ''4''
        else if i = 19 then c \<in> set ''89ab''
        else c \<in> set ''0123456789abcdef'') (enumerate 0 u)"

subsection \<open>Scene description\<close>

text \<open>\<^verbatim>\<open>scores >= t\<close> and \<^verbatim>\<open>tensor[keep]\<close>: the mask and the rows it selects.\<close>

definition ge_mask :: "real list \<Rightarrow> real \<Rightarrow> bool list" where
  "ge_mask scores t = map (\<lambda>s. s \<ge> t) scores"

definition mask_select :: "'a list \<Rightarrow> bool list \<Rightarrow> 'a list" where
  "mask_select xs keep = map fst (filter snd (zip xs keep))"

text \<open>Lines 64 to 66: the image is opened, converted to RGB and turned into a tensor.\<close>

definition decode_stage ::
  "('img, 'tns, 'enc, 'ids) env \<Rightarrow> (path \<rightharpoonup> bytes) \<Rightarrow> path \<Rightarrow> string + ('img \<times> 'tns)" where
  "decode_stage M fs image_path =
     (case Image_open M fs image_path of
        Inl e \<Rightarrow> Inl e
      | Inr opened \<Rightarrow>
          (case convert M opened ''RGB'' of
             Inl e \<Rightarrow> Inl e
           | Inr rgb \<Rightarrow>
               (case to_tensor M rgb of
                  Inl e \<Rightarrow> Inl e
                | Inr input_tensor \<Rightarrow> Inr (rgb, input_tensor))))"

text \<open>Lines 69 to 75: the detector runs and its result is filtered by score.\<close>

definition detect_stage ::
  "('img, 'tns, 'enc, 'ids) env \<Rightarrow> 'tns \<Rightarrow> real \<Rightarrow> string + (box list \<times> nat list)" where
  "detect_stage M input_tensor detection_threshold =
     (case object_detector M input_tensor of
        Inl e \<Rightarrow> Inl e
      | Inr outputs \<Rightarrow>
          (case index_first outputs of
             Inl e \<Rightarrow> Inl e
           | Inr detections \<Rightarrow>
               (let scores = map score_of detections;
                    keep = ge_mask scores detection_threshold;
                    bboxes = mask_select (map box_of detections) keep;
                    labels = mask_select (map label_of detections) keep
                in Inr (bboxes, labels))))"

text \<open>Lines 78 to 81: the caption is generated from the image and an empty prompt.\<close>

definition caption_stage ::
  "('img, 'tns, 'enc, 'ids) env \<Rightarrow> 'img \<Rightarrow> nat \<Rightarrow> string + string" where
  "caption_stage M rgb max_caption_length =
     (case caption_processor M rgb '''' of
        Inl e \<Rightarrow> Inl e
      | Inr inputs \<Rightarrow>
          (case generate M inputs max_caption_length of
             Inl e \<Rightarrow> Inl e
           | Inr generated_ids \<Rightarrow>
               (case index_first generated_ids of
                  Inl e \<Rightarrow> Inl e
                | Inr ids0 \<Rightarrow> decode M ids0 True)))"

text \<open>
  The local variables of \<^verbatim>\<open>describe_scene\<close> when the \<^verbatim>\<open>try\<close> block
  reaches its \<^verbatim>\<open>return\<close>.
\<close>

record 'img scene =
  rgb_image :: 'img
  bboxes :: "box list"
  labels :: "nat list"
  caption :: string

text \<open>The defaults of the parameters of \<^verbatim>\<open>describe_scene\<close> (line 59).\<close>

definition default_detection_threshold :: real where
  "default_detection_threshold = 6 / 10"

definition default_max_caption_length :: nat where
  "default_max_caption_length = 50"

definition describe_scene_try ::
  "('img, 'tns, 'enc, 'ids) env \<Rightarrow> world \<Rightarrow> path \<Rightarrow> real \<Rightarrow> nat \<Rightarrow>
     (string + 'img scene) \<times> world" where
  "describe_scene_try M w image_path detection_threshold max_caption_length =
     (case decode_stage M (files w) image_path of
        Inl e \<Rightarrow> (Inl e, w)
      | Inr (img, input_tensor) \<Rightarrow>
          (let w1 = invoke Detector w in
           case detect_stage M input_tensor detection_threshold of
             Inl e \<Rightarrow> (Inl e, w1)
           | Inr (bs, ls) \<Rightarrow>
               (let w2 = invoke Captioner w1 in
                case caption_stage M img max_caption_length of
                  Inl e \<Rightarrow> (Inl e, w2)
                | Inr c \<Rightarrow>
                    (Inr \<lparr>rgb_image = img, bboxes = bs, labels = ls, caption = c\<rparr>, w2))))"

definition describe_scene ::
  "('img, 'tns, 'enc, 'ids) env \<Rightarrow> world \<Rightarrow> path \<Rightarrow> real \<Rightarrow> nat \<Rightarrow>
     (py_exn + string) \<times> world" where
  "describe_scene M w image_path detection_threshold max_caption_length =
     (case describe_scene_try M w image_path detection_threshold max_caption_length of
        (Inr s, w') \<Rightarrow> (Inr (caption s), w')
      | (Inl e, w') \<Rightarrow>
          (Inl (HTTPException 500 (''Error in scene description: '' @ e)),
           logger_error (''Error in scene description: '' @ e) w'))"

text \<open>The processing error that carries the message \<open>e\<close>.\<close>

definition processing_error :: "string \<Rightarrow> py_exn" where
  "processing_error e = HTTPException 500 (''Error in scene description: '' @ e)"

subsection \<open>The endpoints\<close>

definition UPLOAD_DIR :: path where
  "UPLOAD_DIR = ''uploads''"

definition allowed_extensions :: "string set" where
  "allowed_extensions = {''jpg'', ''jpeg'', ''png''}"

definition max_file_size :: nat where
  "max_file_size = 5 * 1024 * 1024"

text \<open>The value of the local variable \<^verbatim>\<open>file_ext\<close> (line 104) for a file name.\<close>

definition file_ext_of :: "string \<Rightarrow> string" where
  "file_ext_of name = lower (last (split name (CHR ''.'')))"

definition write_file :: "path \<Rightarrow> bytes \<Rightarrow> world \<Rightarrow> world" where
  "write_file p b w = w\<lparr>files := (files w)(p \<mapsto> b)\<rparr>"

definition leave_partial :: "path \<Rightarrow> bytes option \<Rightarrow> world \<Rightarrow> world" where
  "leave_partial p left w = (case left of None \<Rightarrow> w | Some b \<Rightarrow> write_file p b w)"

text \<open>
  The \<^verbatim>\<open>try\<close> block of \<^verbatim>\<open>analyze_image\<close>, lines 102 to 129.
  \<^verbatim>\<open>describe_scene(file_path)\<close> is called with its defaults.
\<close>

definition analyze_image_try ::
  "('img, 'tns, 'enc, 'ids) env \<Rightarrow> world \<Rightarrow> upload \<Rightarrow> (py_exn + response) \<times> world" where
  "analyze_image_try M w upl =
     (case index_last (split (filename upl) (CHR ''.'')) of
        Inl e \<Rightarrow> (Inl (Exception e), w)
      | Inr seg \<Rightarrow>
     (let file_ext = lower seg in
      if file_ext \<notin> allowed_extensions
      then (Inl (HTTPException 422
                  ''Invalid file type. Only JPG, JPEG, and PNG are allowed.''), w)
      else
     (let at_end = seek (file_obj upl) 0 2;
          file_size = tell at_end;
          rewound = seek at_end 0 0
      in
      if file_size > max_file_size
      then (Inl (HTTPException 422 ''File size exceeds the 5MB limit.''), w)
      else
     (let file_path = path_join UPLOAD_DIR (uuid4 M @ ''.'' @ file_ext) in
      case copy_to_disk M file_path (read_rest rewound) of
        WriteFailed e left \<Rightarrow> (Inl (Exception e), leave_partial file_path left w)
      | Written \<Rightarrow>
     (let w1 = write_file file_path (read_rest rewound) w in
      case describe_scene M w1 file_path default_detection_threshold
             default_max_caption_length of
        (Inl e, w2) \<Rightarrow> (Inl e, w2)
      | (Inr cap, w2) \<Rightarrow>
     (let tts_file = replace file_path (''.'' @ file_ext) ''.mp3'' in
      case gTTS M cap of
        Some e \<Rightarrow> (Inl (Exception e), w2)
      | None \<Rightarrow>
     (let w3 = invoke Speech w2 in
      case tts_save M cap tts_file of
        SaveFailed e left \<Rightarrow> (Inl (Exception e), leave_partial tts_file left w3)
      | Saved audio \<Rightarrow>
          (Inr (JSONResponse
                  [(''caption'', cap), (''audio_url'', ''/audio/'' @ basename tts_file)]),
           write_file tts_file audio w3))))))))"

text \<open>
  The handlers of lines 131 to 135: an HTTPException is raised again as it is, any other
  exception is logged and becomes status 500.
\<close>

definition analyze_image ::
  "('img, 'tns, 'enc, 'ids) env \<Rightarrow> world \<Rightarrow> upload \<Rightarrow> (py_exn + response) \<times> world" where
  "analyze_image M w upl =
     (case analyze_image_try M w upl of
        (Inl (HTTPException status detail), w') \<Rightarrow> (Inl (HTTPException status detail), w')
      | (Inl (Exception e), w') \<Rightarrow>
          (Inl (HTTPException 500 (''Failed to process image: '' @ e)),
           logger_error (''Failed to process image: '' @ e) w')
      | (Inr r, w') \<Rightarrow> (Inr r, w'))"

definition get_audio :: "world \<Rightarrow> string \<Rightarrow> py_exn + response" where
  "get_audio w name =
     (let file_path = path_join UPLOAD_DIR name in
      if files w file_path = None
      then Inl (HTTPException 404 ''Audio file not found'')
      else Inr (FileResponse file_path ''audio/mpeg''))"

text \<open>The status of the response that the framework sends for a handler's outcome.\<close>

definition status_of :: "py_exn + response \<Rightarrow> nat" where
  "status_of r =
     (case r of
        Inl (HTTPException status detail) \<Rightarrow> status
      | Inl (Exception e) \<Rightarrow> 500
      | Inr resp \<Rightarrow> 200)"


subsection \<open>A concrete environment\<close>

text \<open>
  Libraries that all succeed, on images, tensors and token sequences that are plain
  strings; an empty upload directory; and the identifier of one request.
\<close>

definition sample_env :: "(string, string, string, string) env" where
  "sample_env =
     \<lparr>uuid4 = ''3f2b8c1e-9a4d-4e6f-8b7a-0c1d2e3f4a5b'',
      copy_to_disk = (\<lambda>p b. Written),
      Image_open = (\<lambda>fs p. case fs p of None \<Rightarrow> Inl ''No such file'' | Some b \<Rightarrow> Inr b),
      convert = (\<lambda>i m. Inr (m @ i)),
      to_tensor = (\<lambda>i. Inr i),
      object_detector =
        (\<lambda>t. Inr [[\<lparr>box_of = (0, 0, 1, 1), label_of = 1, score_of = 9 / 10\<rparr>,
                    \<lparr>box_of = (2, 2, 3, 3), label_of = 7, score_of = 1 / 2\<rparr>]]),
      caption_processor = (\<lambda>i t. Inr (i @ t)),
      generate = (\<lambda>e n. Inr [take n e]),
      decode = (\<lambda>i b. Inr i),
      gTTS = (\<lambda>t. if t = [] then Some ''No text to speak'' else None),
      tts_save = (\<lambda>t p. Saved (''mp3:'' @ t))\<rparr>"

definition empty_world :: world where
  "empty_world = \<lparr>files = Map.empty, trace = []\<rparr>"

definition small_upload :: "string \<Rightarrow> upload" where
  "small_upload name = \<lparr>filename = name, file_obj = \<lparr>data = ''xyz'', pos = 0\<rparr>\<rparr>"

definition sized_upload :: "string \<Rightarrow> nat \<Rightarrow> upload" where
  "sized_upload name n =
     \<lparr>filename = name, file_obj = \<lparr>data = replicate n (CHR ''x''), pos = 0\<rparr>\<rparr>"


definition failing_detector_env :: "(string, string, string, string) env" where
  "failing_detector_env =
     sample_env\<lparr>object_detector := (\<lambda>t. Inl ''CUDA out of memory'')\<rparr>"

definition world_with_image :: world where
  "world_with_image = \<lparr>files = [''uploads/cat.png'' \<mapsto> ''pixels''], trace = []\<rparr>"


section \<open>Properties\<close>

lemma split_acc_nonempty: "split_acc sep acc s \<noteq> []"
  by (induction s arbitrary: acc) auto

lemma index_last_split: "index_last (split s sep) = Inr (last (split s sep))"
  by (simp add: index_last_def split_def split_acc_nonempty)


subsection \<open>Validation of the upload\<close>

lemma split_acc_no_sep: "sep \<notin> set s \<Longrightarrow> split_acc sep acc s = [rev acc @ s]"
  by (induction s arbitrary: acc) auto

lemma split_no_sep: "sep \<notin> set s \<Longrightarrow> split s sep = [s]"
  by (simp add: split_def split_acc_no_sep)

lemma tell_seek_end: "tell (seek f 0 2) = length (data f)"
  by (simp add: tell_def seek_def)

lemma read_rest_rewound: "read_rest (seek (seek f 0 2) 0 0) = data f"
  by (simp add: read_rest_def seek_def)

lemma analyze_image_try_bad_ext:
  assumes "file_ext_of (filename upl) \<notin> allowed_extensions"
  shows "analyze_image_try M w upl =
           (Inl (HTTPException 422 ''Invalid file type. Only JPG, JPEG, and PNG are allowed.''),
            w)"
  using assms
  by (simp add: analyze_image_try_def index_last_split file_ext_of_def)

lemma analyze_image_try_too_big:
  assumes "file_ext_of (filename upl) \<in> allowed_extensions"
    and "length (data (file_obj upl)) > max_file_size"
  shows "analyze_image_try M w upl =
           (Inl (HTTPException 422 ''File size exceeds the 5MB limit.''), w)"
  using assms
  by (simp add: analyze_image_try_def index_last_split file_ext_of_def tell_seek_end)

lemma analyze_image_bad_ext:
  assumes "file_ext_of (filename upl) \<notin> allowed_extensions"
  shows "analyze_image M w upl =
           (Inl (HTTPException 422 ''Invalid file type. Only JPG, JPEG, and PNG are allowed.''),
            w)"
  by (simp add: analyze_image_def analyze_image_try_bad_ext [OF assms])

lemma analyze_image_too_big:
  assumes "file_ext_of (filename upl) \<in> allowed_extensions"
    and "length (data (file_obj upl)) > max_file_size"
  shows "analyze_image M w upl =
           (Inl (HTTPException 422 ''File size exceeds the 5MB limit.''), w)"
  by (simp add: analyze_image_def analyze_image_try_too_big [OF assms])

lemma describe_scene_result:
  "(\<exists>c. fst (describe_scene M w p t n) = Inr c) \<or>
   (\<exists>e. fst (describe_scene M w p t n) =
          Inl (HTTPException 500 (''Error in scene description: '' @ e)))"
  by (simp add: describe_scene_def split: prod.splits sum.splits)

lemma analyze_image_accepted_status:
  assumes "file_ext_of (filename upl) \<in> allowed_extensions"
    and "length (data (file_obj upl)) \<le> max_file_size"
  shows "status_of (fst (analyze_image M w upl)) = 200 \<or>
         status_of (fst (analyze_image M w upl)) = 500"
proof -
  let ?p = "path_join UPLOAD_DIR (uuid4 M @ ''.'' @ file_ext_of (filename upl))"
  let ?d = "describe_scene M (write_file ?p (data (file_obj upl)) w) ?p
              default_detection_threshold default_max_caption_length"
  obtain r w2 where d: "?d = (r, w2)"
    by (cases ?d)
  from describe_scene_result [of M _ _ default_detection_threshold default_max_caption_length] d
  have r: "(\<exists>c. r = Inr c) \<or>
           (\<exists>e. r = Inl (HTTPException 500 (''Error in scene description: '' @ e)))"
    by (metis fst_conv)
  show ?thesis
    using assms r d
    by (auto simp add: analyze_image_def analyze_image_try_def index_last_split
        file_ext_of_def tell_seek_end read_rest_rewound status_of_def Let_def
        split: write_outcome.splits save_outcome.splits option.splits)
qed

lemma max_file_size_value: "max_file_size = 5242880"
  by (simp add: max_file_size_def)



text \<open>
  C6. With an allowed extension, the request is answered with status 422 exactly when
  the content is strictly longer than 5 * 1024 * 1024 bytes; a content of exactly that
  length is not refused.
\<close>

theorem analyze_image_size_limit:
  assumes "file_ext_of (filename upl) \<in> allowed_extensions"
  shows "status_of (fst (analyze_image M w upl)) = 422 \<longleftrightarrow>
         length (data (file_obj upl)) > 5 * 1024 * 1024"
proof (cases "length (data (file_obj upl)) > max_file_size")
  case True
  with assms show ?thesis
    by (simp add: analyze_image_too_big status_of_def max_file_size_value)
next
  case False
  then have "length (data (file_obj upl)) \<le> max_file_size"
    by simp
  from analyze_image_accepted_status [OF assms this, of M w] False
  show ?thesis
    by (auto simp add: max_file_size_value)
qed

theorem analyze_image_size_limit_witness:
  "file_ext_of (filename (sized_upload ''scan.png'' (5 * 1024 * 1024))) \<in> allowed_extensions \<and>
   status_of (fst (analyze_image sample_env empty_world
                     (sized_upload ''scan.png'' (5 * 1024 * 1024)))) \<noteq> 422 \<and>
   file_ext_of (filename (sized_upload ''scan.png'' (5 * 1024 * 1024 + 1))) \<in> allowed_extensions \<and>
   status_of (fst (analyze_image sample_env empty_world
                     (sized_upload ''scan.png'' (5 * 1024 * 1024 + 1)))) = 422"
proof -
  have h: "file_ext_of (filename (sized_upload ''scan.png'' n)) \<in> allowed_extensions" for n
    by (simp add: sized_upload_def file_ext_of_def split_def lower_def lower_chr_def
        allowed_extensions_def)
  from analyze_image_size_limit [OF h, of sample_env empty_world "5 * 1024 * 1024"]
    analyze_image_size_limit [OF h, of sample_env empty_world "5 * 1024 * 1024 + 1"] h
  show ?thesis
    by (simp add: sized_upload_def)
qed

text \<open>
  C10. When both rules are violated, the extension is checked first: the response is the
  422 with the message about the file type, not the one about the size.
\<close>

theorem analyze_image_extension_checked_first:
  assumes "file_ext_of (filename upl) \<notin> allowed_extensions"
    and "length (data (file_obj upl)) > 5 * 1024 * 1024"
  shows "fst (analyze_image M w upl) =
           Inl (HTTPException 422 ''Invalid file type. Only JPG, JPEG, and PNG are allowed.'') \<and>
         fst (analyze_image M w upl) \<noteq>
           Inl (HTTPException 422 ''File size exceeds the 5MB limit.'')"
  using assms(1) by (simp add: analyze_image_bad_ext)

theorem analyze_image_extension_checked_first_witness:
  "file_ext_of (filename (sized_upload ''clip.gif'' (6 * 1024 * 1024))) \<notin> allowed_extensions \<and>
   length (data (file_obj (sized_upload ''clip.gif'' (6 * 1024 * 1024)))) > 5 * 1024 * 1024 \<and>
   fst (analyze_image sample_env empty_world (sized_upload ''clip.gif'' (6 * 1024 * 1024))) =
     Inl (HTTPException 422 ''Invalid file type. Only JPG, JPEG, and PNG are allowed.'')"
proof -
  have h1: "file_ext_of (filename (sized_upload ''clip.gif'' (6 * 1024 * 1024)))
              \<notin> allowed_extensions"
    by (simp add: sized_upload_def file_ext_of_def split_def lower_def lower_chr_def
        allowed_extensions_def)
  have h2: "length (data (file_obj (sized_upload ''clip.gif'' (6 * 1024 * 1024))))
              > 5 * 1024 * 1024"
    by (simp add: sized_upload_def)
  from h1 h2 analyze_image_extension_checked_first [OF h1 h2, of sample_env empty_world]
  show ?thesis by simp
qed

text \<open>
  C9, as the code has it. For a file name without a dot the whole name is the extension.
  The name passes the check of the type exactly when its lower-case form is jpg, jpeg or
  png, so JPG passes as jpg does; every other name without a dot is refused with the 422
  about the file type.
\<close>

theorem analyze_image_dotless_name:
  assumes "CHR ''.'' \<notin> set (filename upl)"
  shows "file_ext_of (filename upl) = lower (filename upl) \<and>
         (fst (analyze_image M w upl) =
            Inl (HTTPException 422 ''Invalid file type. Only JPG, JPEG, and PNG are allowed.'')
          \<longleftrightarrow> lower (filename upl) \<notin> {''jpg'', ''jpeg'', ''png''})"
proof -
  have ext: "file_ext_of (filename upl) = lower (filename upl)"
    using assms by (simp add: file_ext_of_def split_no_sep)
  have "fst (analyze_image M w upl) \<noteq>
          Inl (HTTPException 422 ''Invalid file type. Only JPG, JPEG, and PNG are allowed.'')"
    if ok: "file_ext_of (filename upl) \<in> allowed_extensions"
  proof (cases "length (data (file_obj upl)) > max_file_size")
    case True
    with ok show ?thesis
      by (simp add: analyze_image_too_big)
  next
    case False
    then have "length (data (file_obj upl)) \<le> max_file_size"
      by simp
    from analyze_image_accepted_status [OF ok this, of M w]
    show ?thesis
      by (auto simp add: status_of_def)
  qed
  with ext show ?thesis
    by (auto simp add: analyze_image_bad_ext allowed_extensions_def)
qed

theorem analyze_image_dotless_name_witness:
  "CHR ''.'' \<notin> set (filename (small_upload ''Png'')) \<and>
   file_ext_of (filename (small_upload ''Png'')) = ''png'' \<and>
   fst (analyze_image sample_env empty_world (small_upload ''Png'')) \<noteq>
     Inl (HTTPException 422 ''Invalid file type. Only JPG, JPEG, and PNG are allowed.'') \<and>
   CHR ''.'' \<notin> set (filename (small_upload ''README'')) \<and>
   fst (analyze_image sample_env empty_world (small_upload ''README'')) =
     Inl (HTTPException 422 ''Invalid file type. Only JPG, JPEG, and PNG are allowed.'')"
proof -
  have h1: "CHR ''.'' \<notin> set (filename (small_upload ''Png''))"
    by (simp add: small_upload_def)
  have h2: "CHR ''.'' \<notin> set (filename (small_upload ''README''))"
    by (simp add: small_upload_def)
  from analyze_image_dotless_name [OF h1, of sample_env empty_world]
    analyze_image_dotless_name [OF h2, of sample_env empty_world] h1 h2
  show ?thesis
    by (simp add: small_upload_def lower_def lower_chr_def)
qed

text \<open>
  The claim C9 as it is written fails: JPG has no dot and is none of the three names
  jpg, jpeg, png, yet it is not refused.
\<close>

theorem analyze_image_dotless_upper_case_accepted:
  "CHR ''.'' \<notin> set ''JPG'' \<and> ''JPG'' \<notin> {''jpg'', ''jpeg'', ''png''} \<and>
   status_of (fst (analyze_image sample_env empty_world (small_upload ''JPG''))) \<noteq> 422"
proof -
  have ok: "file_ext_of (filename (small_upload ''JPG'')) \<in> allowed_extensions"
    by (simp add: small_upload_def file_ext_of_def split_def lower_def lower_chr_def
        allowed_extensions_def)
  have "length (data (file_obj (small_upload ''JPG''))) \<le> max_file_size"
    by (simp add: small_upload_def max_file_size_def)
  from analyze_image_accepted_status [OF ok this, of sample_env empty_world]
  show ?thesis by auto
qed

subsection \<open>Retrieval of the audio file\<close>

lemma rfind_absent: "c \<notin> set s \<Longrightarrow> rfind s c = - 1"
  by (induction s) auto

lemma rfind_last_occurrence: "c \<notin> set b \<Longrightarrow> rfind (a @ c # b) c = int (length a)"
  by (induction a) (auto simp add: rfind_absent Let_def)

lemma basename_after_slash: "CHR ''/'' \<notin> set b \<Longrightarrow> basename (a @ CHR ''/'' # b) = b"
  by (simp add: basename_def rfind_last_occurrence nat_add_distrib)

lemma path_join_component:
  "CHR ''/'' \<notin> set name \<Longrightarrow> path_join UPLOAD_DIR name = ''uploads/'' @ name"
  by (cases name) (auto simp add: path_join_def UPLOAD_DIR_def)



subsection \<open>Scene description\<close>

lemma decode_stage_raises:
  "Image_open M fs p = Inl e \<Longrightarrow> decode_stage M fs p = Inl e"
  "Image_open M fs p = Inr opened \<Longrightarrow> convert M opened ''RGB'' = Inl e \<Longrightarrow>
     decode_stage M fs p = Inl e"
  "Image_open M fs p = Inr opened \<Longrightarrow> convert M opened ''RGB'' = Inr rgb \<Longrightarrow>
     to_tensor M rgb = Inl e \<Longrightarrow> decode_stage M fs p = Inl e"
  by (simp_all add: decode_stage_def)

lemma detect_stage_raises:
  "object_detector M tns = Inl e \<Longrightarrow> detect_stage M tns t = Inl e"
  "object_detector M tns = Inr [] \<Longrightarrow> detect_stage M tns t = Inl ''list index out of range''"
  by (simp_all add: detect_stage_def index_first_def)

lemma caption_stage_raises:
  "caption_processor M rgb '''' = Inl e \<Longrightarrow> caption_stage M rgb n = Inl e"
  "caption_processor M rgb '''' = Inr inputs \<Longrightarrow> generate M inputs n = Inl e \<Longrightarrow>
     caption_stage M rgb n = Inl e"
  "caption_processor M rgb '''' = Inr inputs \<Longrightarrow> generate M inputs n = Inr [] \<Longrightarrow>
     caption_stage M rgb n = Inl ''list index out of range''"
  "caption_processor M rgb '''' = Inr inputs \<Longrightarrow> generate M inputs n = Inr (ids # rest) \<Longrightarrow>
     decode M ids True = Inl e \<Longrightarrow> caption_stage M rgb n = Inl e"
  by (simp_all add: caption_stage_def index_first_def)

lemma describe_scene_try_raises:
  "decode_stage M (files w) p = Inl e \<Longrightarrow> fst (describe_scene_try M w p t n) = Inl e"
  "decode_stage M (files w) p = Inr (rgb, tns) \<Longrightarrow> detect_stage M tns t = Inl e \<Longrightarrow>
     fst (describe_scene_try M w p t n) = Inl e"
  "decode_stage M (files w) p = Inr (rgb, tns) \<Longrightarrow> detect_stage M tns t = Inr d \<Longrightarrow>
     caption_stage M rgb n = Inl e \<Longrightarrow> fst (describe_scene_try M w p t n) = Inl e"
  by (simp_all add: describe_scene_try_def Let_def split: prod.splits)

lemma describe_scene_of_try:
  "fst (describe_scene_try M w p t n) = Inl e \<Longrightarrow>
     fst (describe_scene M w p t n) = Inl (processing_error e)"
  by (cases "describe_scene_try M w p t n") (simp add: describe_scene_def processing_error_def)

text \<open>
  C2. An exception raised while the image is decoded, while the detector runs or while
  the caption is generated leaves \<^verbatim>\<open>describe_scene\<close> as the HTTPException
  with status 500 whose detail is the fixed prefix followed by the message of that
  exception; and \<^verbatim>\<open>describe_scene\<close> raises nothing of any other form.
\<close>

theorem describe_scene_error_boundary:
  "(Image_open M (files w) p = Inl e \<longrightarrow>
      fst (describe_scene M w p t n) = Inl (processing_error e)) \<and>
   (Image_open M (files w) p = Inr opened \<longrightarrow> convert M opened ''RGB'' = Inl e \<longrightarrow>
      fst (describe_scene M w p t n) = Inl (processing_error e)) \<and>
   (decode_stage M (files w) p = Inl e \<longrightarrow>
      fst (describe_scene M w p t n) = Inl (processing_error e)) \<and>
   (decode_stage M (files w) p = Inr (rgb, tns) \<longrightarrow> object_detector M tns = Inl e \<longrightarrow>
      fst (describe_scene M w p t n) = Inl (processing_error e)) \<and>
   (decode_stage M (files w) p = Inr (rgb, tns) \<longrightarrow> detect_stage M tns t = Inl e \<longrightarrow>
      fst (describe_scene M w p t n) = Inl (processing_error e)) \<and>
   (decode_stage M (files w) p = Inr (rgb, tns) \<longrightarrow> detect_stage M tns t = Inr d \<longrightarrow>
      caption_processor M rgb '''' = Inr inputs \<longrightarrow> generate M inputs n = Inl e \<longrightarrow>
      fst (describe_scene M w p t n) = Inl (processing_error e)) \<and>
   (decode_stage M (files w) p = Inr (rgb, tns) \<longrightarrow> detect_stage M tns t = Inr d \<longrightarrow>
      caption_stage M rgb n = Inl e \<longrightarrow>
      fst (describe_scene M w p t n) = Inl (processing_error e)) \<and>
   (fst (describe_scene M w p t n) = Inl x \<longrightarrow>
      (\<exists>e'. fst (describe_scene_try M w p t n) = Inl e' \<and> x = processing_error e'))"
proof -
  have last: "\<exists>e'. fst (describe_scene_try M w p t n) = Inl e' \<and> x = processing_error e'"
    if "fst (describe_scene M w p t n) = Inl x"
    using that
    by (cases "describe_scene_try M w p t n")
      (auto simp add: describe_scene_def processing_error_def split: sum.splits)
  show ?thesis
    using last
    by (auto intro!: describe_scene_of_try
        intro: describe_scene_try_raises decode_stage_raises detect_stage_raises
          caption_stage_raises)
qed

theorem describe_scene_error_boundary_witness:
  "decode_stage failing_detector_env (files world_with_image) ''uploads/cat.png'' =
     Inr (''RGBpixels'', ''RGBpixels'') \<and>
   object_detector failing_detector_env ''RGBpixels'' = Inl ''CUDA out of memory'' \<and>
   fst (describe_scene failing_detector_env world_with_image ''uploads/cat.png'' (6 / 10) 50) =
     Inl (HTTPException 500 ''Error in scene description: CUDA out of memory'')"
proof -
  have h1: "decode_stage failing_detector_env (files world_with_image) ''uploads/cat.png'' =
     Inr (''RGBpixels'', ''RGBpixels'')"
    by (simp add: decode_stage_def failing_detector_env_def sample_env_def world_with_image_def)
  have h2: "object_detector failing_detector_env ''RGBpixels'' = Inl ''CUDA out of memory''"
    by (simp add: failing_detector_env_def)
  from h1 h2
    describe_scene_error_boundary [where M = failing_detector_env and w = world_with_image
      and p = "''uploads/cat.png''" and t = "6 / 10" and n = 50 and rgb = "''RGBpixels''"
      and tns = "''RGBpixels''" and e = "''CUDA out of memory''"]
  show ?thesis
    by (simp add: processing_error_def)
qed

lemma mask_select_ge:
  "mask_select (map f ds) (ge_mask (map score_of ds) t) =
     map f (filter (\<lambda>d. score_of d \<ge> t) ds)"
  by (induction ds) (simp_all add: mask_select_def ge_mask_def)

lemma decode_stage_success:
  assumes "decode_stage M fs p = Inr (rgb, tns)"
  shows "\<exists>opened. Image_open M fs p = Inr opened \<and> convert M opened ''RGB'' = Inr rgb \<and>
           to_tensor M rgb = Inr tns"
  using assms by (auto simp add: decode_stage_def split: sum.splits)

lemma detect_stage_success:
  assumes "detect_stage M tns t = Inr (bs, ls)"
  shows "\<exists>dets others. object_detector M tns = Inr (dets # others) \<and>
           bs = map box_of (filter (\<lambda>d. score_of d \<ge> t) dets) \<and>
           ls = map label_of (filter (\<lambda>d. score_of d \<ge> t) dets)"
  using assms
  by (auto simp add: detect_stage_def index_first_def mask_select_ge Let_def
      split: sum.splits list.splits)

lemma caption_stage_success:
  assumes "caption_stage M rgb n = Inr c"
  shows "\<exists>inputs ids more. caption_processor M rgb '''' = Inr inputs \<and>
           generate M inputs n = Inr (ids # more) \<and> decode M ids True = Inr c"
  using assms
  by (auto simp add: caption_stage_def index_first_def split: sum.splits list.splits)

lemma describe_scene_try_success:
  assumes "describe_scene_try M w p t n = (Inr s, w')"
  shows "\<exists>tns. decode_stage M (files w) p = Inr (rgb_image s, tns) \<and>
           detect_stage M tns t = Inr (bboxes s, labels s) \<and>
           caption_stage M (rgb_image s) n = Inr (caption s) \<and>
           w' = invoke Captioner (invoke Detector w)"
  using assms
  by (auto simp add: describe_scene_try_def Let_def split: sum.splits prod.splits)

lemma decode_stage_other_detector:
  "decode_stage (M\<lparr>object_detector := f\<rparr>) fs p = decode_stage M fs p"
  by (simp add: decode_stage_def split: sum.splits)

lemma caption_stage_other_detector:
  "caption_stage (M\<lparr>object_detector := f\<rparr>) rgb n = caption_stage M rgb n"
  by (simp add: caption_stage_def split: sum.splits)

lemma describe_scene_other_detector:
  assumes "decode_stage M (files w) p = Inr (rgb, tns)"
    and "caption_stage M rgb n = Inr c"
    and "detect_stage (M\<lparr>object_detector := f\<rparr>) tns t = Inr d"
  shows "fst (describe_scene (M\<lparr>object_detector := f\<rparr>) w p t n) = Inr c"
  using assms
  by (simp add: describe_scene_def describe_scene_try_def decode_stage_other_detector
      caption_stage_other_detector Let_def split: prod.splits)

text \<open>
  C4. When \<^verbatim>\<open>describe_scene\<close> returns, the image at the path has been opened
  and converted to RGB; the detector has run on its tensor and the boxes and labels kept
  are those of the detections whose score is at least the threshold; the caption
  processor has been given the RGB image and the empty prompt, the captioning model has
  been asked for at most \<open>max_caption_length\<close> tokens, and the value returned is the
  decoding of the first generated sequence with the special tokens skipped. Nothing of
  the detections is returned: with any other detector that succeeds the result is the
  same. The defaults are 0.6 and 50.
\<close>

theorem describe_scene_pipeline:
  assumes "describe_scene_try M w p t n = (Inr s, w')"
  shows "\<exists>opened tns dets others inputs ids more.
           Image_open M (files w) p = Inr opened \<and>
           convert M opened ''RGB'' = Inr (rgb_image s) \<and>
           to_tensor M (rgb_image s) = Inr tns \<and>
           object_detector M tns = Inr (dets # others) \<and>
           bboxes s = map box_of (filter (\<lambda>d. score_of d \<ge> t) dets) \<and>
           labels s = map label_of (filter (\<lambda>d. score_of d \<ge> t) dets) \<and>
           caption_processor M (rgb_image s) '''' = Inr inputs \<and>
           generate M inputs n = Inr (ids # more) \<and>
           decode M ids True = Inr (caption s) \<and>
           describe_scene M w p t n = (Inr (caption s), w') \<and>
           (\<forall>f d. detect_stage (M\<lparr>object_detector := f\<rparr>) tns t = Inr d \<longrightarrow>
              fst (describe_scene (M\<lparr>object_detector := f\<rparr>) w p t n) = Inr (caption s)) \<and>
           default_detection_threshold = 6 / 10 \<and> default_max_caption_length = 50"
proof -
  from describe_scene_try_success [OF assms] obtain tns where
    dec: "decode_stage M (files w) p = Inr (rgb_image s, tns)" and
    det: "detect_stage M tns t = Inr (bboxes s, labels s)" and
    cap: "caption_stage M (rgb_image s) n = Inr (caption s)"
    by blast
  from decode_stage_success [OF dec] obtain opened where
    o: "Image_open M (files w) p = Inr opened" "convert M opened ''RGB'' = Inr (rgb_image s)"
      "to_tensor M (rgb_image s) = Inr tns"
    by blast
  from detect_stage_success [OF det] obtain dets others where
    d: "object_detector M tns = Inr (dets # others)"
      "bboxes s = map box_of (filter (\<lambda>d. score_of d \<ge> t) dets)"
      "labels s = map label_of (filter (\<lambda>d. score_of d \<ge> t) dets)"
    by blast
  from caption_stage_success [OF cap] obtain inputs ids more where
    c: "caption_processor M (rgb_image s) '''' = Inr inputs"
      "generate M inputs n = Inr (ids # more)" "decode M ids True = Inr (caption s)"
    by blast
  have r: "describe_scene M w p t n = (Inr (caption s), w')"
    by (simp add: describe_scene_def assms)
  have i: "fst (describe_scene (M\<lparr>object_detector := f\<rparr>) w p t n) = Inr (caption s)"
    if "detect_stage (M\<lparr>object_detector := f\<rparr>) tns t = Inr d" for f d
    using describe_scene_other_detector [OF dec cap that] .
  have dflt: "default_detection_threshold = 6 / 10 \<and> default_max_caption_length = 50"
    by (simp add: default_detection_threshold_def default_max_caption_length_def)
  from o d c r i dflt show ?thesis
    by blast
qed

theorem describe_scene_pipeline_witness:
  "describe_scene_try sample_env world_with_image ''uploads/cat.png'' (6 / 10) 50 =
     (Inr \<lparr>rgb_image = ''RGBpixels'', bboxes = [(0, 0, 1, 1)], labels = [1],
           caption = ''RGBpixels''\<rparr>,
      world_with_image\<lparr>trace := [Invoked Detector, Invoked Captioner]\<rparr>) \<and>
   describe_scene sample_env world_with_image ''uploads/cat.png'' (6 / 10) 50 =
     (Inr ''RGBpixels'', world_with_image\<lparr>trace := [Invoked Detector, Invoked Captioner]\<rparr>)"
proof -
  have h: "describe_scene_try sample_env world_with_image ''uploads/cat.png'' (6 / 10) 50 =
     (Inr \<lparr>rgb_image = ''RGBpixels'', bboxes = [(0, 0, 1, 1)], labels = [1],
           caption = ''RGBpixels''\<rparr>,
      world_with_image\<lparr>trace := [Invoked Detector, Invoked Captioner]\<rparr>)"
    by (simp add: describe_scene_try_def decode_stage_def detect_stage_def caption_stage_def
        sample_env_def world_with_image_def index_first_def mask_select_def ge_mask_def
        invoke_def)
  from h describe_scene_pipeline [OF h] show ?thesis
    by auto
qed

subsection \<open>The accepted upload\<close>

lemma uuid4_str_chars:
  assumes "is_uuid4_str u"
  shows "set u \<subseteq> set ''0123456789abcdef-''" and "u \<noteq> []"
proof -
  from assms have len: "length u = 36"
    and all: "\<forall>x \<in> set (enumerate 0 u).
        (\<lambda>(i, c). if i \<in> {8, 13, 18, 23} then c = CHR ''-''
          else if i = 14 then c = CHR ''4''
          else if i = 19 then c \<in> set ''89ab''
          else c \<in> set ''0123456789abcdef'') x"
    by (simp_all add: is_uuid4_str_def list_all_iff)
  show "set u \<subseteq> set ''0123456789abcdef-''"
  proof
    fix c assume "c \<in> set u"
    then obtain i where i: "i < length u" "u ! i = c"
      by (auto simp add: in_set_conv_nth)
    then have "(i, c) \<in> set (enumerate 0 u)"
      by (simp add: in_set_enumerate_eq)
    with all have "if i \<in> {8, 13, 18, 23} then c = CHR ''-''
          else if i = 14 then c = CHR ''4''
          else if i = 19 then c \<in> set ''89ab''
          else c \<in> set ''0123456789abcdef''"
      by fastforce
    then show "c \<in> set ''0123456789abcdef-''"
      by (simp split: if_splits) auto
  qed
  from len show "u \<noteq> []"
    by auto
qed

lemma uuid4_str_no_dot_slash:
  assumes "is_uuid4_str u"
  shows "CHR ''.'' \<notin> set u" and "CHR ''/'' \<notin> set u" and "hd u \<noteq> CHR ''/''"
proof -
  from uuid4_str_chars [OF assms] have s: "set u \<subseteq> set ''0123456789abcdef-''" and n: "u \<noteq> []"
    by simp_all
  from s show "CHR ''.'' \<notin> set u" and sl: "CHR ''/'' \<notin> set u"
    by auto
  from n have "hd u \<in> set u"
    by simp
  with sl show "hd u \<noteq> CHR ''/''"
    by metis
qed

lemma upload_path:
  assumes "is_uuid4_str u"
  shows "path_join UPLOAD_DIR (u @ ''.'' @ ext) = ''uploads/'' @ u @ ''.'' @ ext"
  using uuid4_str_chars(2) [OF assms] uuid4_str_no_dot_slash(3) [OF assms]
  by (simp add: path_join_def UPLOAD_DIR_def)

lemma replace_from_suffix:
  "c \<notin> set s \<Longrightarrow> replace_from (c # e) new (s @ c # e) = s @ new"
  by (induction s) auto

lemma audio_path:
  assumes "is_uuid4_str u"
  shows "replace (''uploads/'' @ u @ ''.'' @ ext) (''.'' @ ext) ''.mp3'' = ''uploads/'' @ u @ ''.mp3''"
proof -
  have "CHR ''.'' \<notin> set (''uploads/'' @ u)"
    using uuid4_str_no_dot_slash(1) [OF assms] by simp
  from replace_from_suffix [OF this, of ext "''.mp3''"] show ?thesis
    by (simp add: replace_def)
qed

lemma audio_basename:
  assumes "is_uuid4_str u"
  shows "basename (''uploads/'' @ u @ ''.mp3'') = u @ ''.mp3''"
proof -
  have "CHR ''/'' \<notin> set (u @ ''.mp3'')"
    using uuid4_str_no_dot_slash(2) [OF assms] by simp
  from basename_after_slash [OF this, of "''uploads''"] show ?thesis
    by simp
qed

lemma describe_scene_files: "files (snd (describe_scene M w p t n)) = files w"
  by (simp add: describe_scene_def describe_scene_try_def invoke_def logger_error_def Let_def
      split: sum.splits prod.splits)

lemma analyze_image_try_accepted:
  assumes "file_ext_of (filename upl) \<in> allowed_extensions"
    and "length (data (file_obj upl)) \<le> max_file_size"
    and "path_join UPLOAD_DIR (uuid4 M @ ''.'' @ file_ext_of (filename upl)) = fp"
    and "replace fp (''.'' @ file_ext_of (filename upl)) ''.mp3'' = tf"
  shows "analyze_image_try M w upl =
     (case copy_to_disk M fp (data (file_obj upl)) of
        WriteFailed e left \<Rightarrow> (Inl (Exception e), leave_partial fp left w)
      | Written \<Rightarrow>
          (case describe_scene M (write_file fp (data (file_obj upl)) w) fp
                  default_detection_threshold default_max_caption_length of
             (Inl e, w2) \<Rightarrow> (Inl e, w2)
           | (Inr cap, w2) \<Rightarrow>
               (case gTTS M cap of
                  Some e \<Rightarrow> (Inl (Exception e), w2)
                | None \<Rightarrow>
                    (case tts_save M cap tf of
                       SaveFailed e left \<Rightarrow>
                         (Inl (Exception e), leave_partial tf left (invoke Speech w2))
                     | Saved audio \<Rightarrow>
                         (Inr (JSONResponse
                                 [(''caption'', cap),
                                  (''audio_url'', ''/audio/'' @ basename tf)]),
                          write_file tf audio (invoke Speech w2))))))"
  using assms unfolding analyze_image_try_def file_ext_of_def
  by (simp add: index_last_split tell_seek_end read_rest_rewound Let_def
      split: write_outcome.splits prod.splits sum.splits option.splits save_outcome.splits)

lemma analyze_image_accepted:
  assumes u: "is_uuid4_str (uuid4 M)"
    and ext: "file_ext_of (filename upl) \<in> allowed_extensions"
    and size: "length (data (file_obj upl)) \<le> max_file_size"
  shows "analyze_image M w upl =
     (case copy_to_disk M (''uploads/'' @ uuid4 M @ ''.'' @ file_ext_of (filename upl))
             (data (file_obj upl)) of
        WriteFailed e left \<Rightarrow>
          (Inl (HTTPException 500 (''Failed to process image: '' @ e)),
           logger_error (''Failed to process image: '' @ e)
             (leave_partial (''uploads/'' @ uuid4 M @ ''.'' @ file_ext_of (filename upl)) left w))
      | Written \<Rightarrow>
          (case describe_scene M
                  (write_file (''uploads/'' @ uuid4 M @ ''.'' @ file_ext_of (filename upl))
                     (data (file_obj upl)) w)
                  (''uploads/'' @ uuid4 M @ ''.'' @ file_ext_of (filename upl))
                  default_detection_threshold default_max_caption_length of
             (Inl (HTTPException status detail), w2) \<Rightarrow> (Inl (HTTPException status detail), w2)
           | (Inl (Exception e), w2) \<Rightarrow>
               (Inl (HTTPException 500 (''Failed to process image: '' @ e)),
                logger_error (''Failed to process image: '' @ e) w2)
           | (Inr cap, w2) \<Rightarrow>
               (case gTTS M cap of
                  Some e \<Rightarrow>
                    (Inl (HTTPException 500 (''Failed to process image: '' @ e)),
                     logger_error (''Failed to process image: '' @ e) w2)
                | None \<Rightarrow>
                    (case tts_save M cap (''uploads/'' @ uuid4 M @ ''.mp3'') of
                       SaveFailed e left \<Rightarrow>
                         (Inl (HTTPException 500 (''Failed to process image: '' @ e)),
                          logger_error (''Failed to process image: '' @ e)
                            (leave_partial (''uploads/'' @ uuid4 M @ ''.mp3'') left
                               (invoke Speech w2)))
                     | Saved audio \<Rightarrow>
                         (Inr (JSONResponse
                                 [(''caption'', cap),
                                  (''audio_url'', ''/audio/'' @ uuid4 M @ ''.mp3'')]),
                          write_file (''uploads/'' @ uuid4 M @ ''.mp3'') audio
                            (invoke Speech w2))))))"
  unfolding analyze_image_def
    analyze_image_try_accepted [OF ext size upload_path [OF u] audio_path [OF u]]
    audio_basename [OF u]
  by (simp split: write_outcome.splits prod.splits sum.splits option.splits
      save_outcome.splits py_exn.splits)

lemma analyze_image_success:
  assumes u: "is_uuid4_str (uuid4 M)"
    and r: "analyze_image M w upl = (Inr resp, w')"
  shows "file_ext_of (filename upl) \<in> allowed_extensions \<and>
         (\<exists>cap w2 audio.
            describe_scene M
              (write_file (''uploads/'' @ uuid4 M @ ''.'' @ file_ext_of (filename upl))
                 (data (file_obj upl)) w)
              (''uploads/'' @ uuid4 M @ ''.'' @ file_ext_of (filename upl))
              default_detection_threshold default_max_caption_length = (Inr cap, w2) \<and>
            tts_save M cap (''uploads/'' @ uuid4 M @ ''.mp3'') = Saved audio \<and>
            resp = JSONResponse
                     [(''caption'', cap), (''audio_url'', ''/audio/'' @ uuid4 M @ ''.mp3'')] \<and>
            w' = write_file (''uploads/'' @ uuid4 M @ ''.mp3'') audio (invoke Speech w2))"
proof -
  have ext: "file_ext_of (filename upl) \<in> allowed_extensions"
  proof (rule ccontr)
    assume "file_ext_of (filename upl) \<notin> allowed_extensions"
    from analyze_image_bad_ext [OF this, of M w] r show False
      by simp
  qed
  have size: "length (data (file_obj upl)) \<le> max_file_size"
  proof (rule ccontr)
    assume "\<not> length (data (file_obj upl)) \<le> max_file_size"
    then have "length (data (file_obj upl)) > max_file_size"
      by simp
    from analyze_image_too_big [OF ext this, of M w] r show False
      by simp
  qed
  from r show ?thesis
    unfolding analyze_image_accepted [OF u ext size]
    by (auto simp add: ext split: write_outcome.splits prod.splits sum.splits option.splits
        save_outcome.splits py_exn.splits)
qed

lemma jpg_jpeg_png_not_mp3:
  assumes "ext \<in> allowed_extensions"
  shows "''uploads/'' @ u @ ''.'' @ ext \<noteq> ''uploads/'' @ u @ ''.mp3''"
  using assms by (auto simp add: allowed_extensions_def)

text \<open>
  C3. A request that succeeds is answered with the JSON object of a caption and an
  audio URL; the URL is /audio/ followed by the identifier generated for the request and
  .mp3. The upload has been saved under that identifier with its own extension, the
  audio under the same identifier with the extension mp3, and the retrieval endpoint
  serves that audio file under the name in the URL.
\<close>

theorem analyze_image_success_response:
  assumes "is_uuid4_str (uuid4 M)"
    and "analyze_image M w upl = (Inr resp, w')"
  shows "\<exists>cap audio.
           resp = JSONResponse
                    [(''caption'', cap), (''audio_url'', ''/audio/'' @ uuid4 M @ ''.mp3'')] \<and>
           files w' (''uploads/'' @ uuid4 M @ ''.'' @ file_ext_of (filename upl)) =
             Some (data (file_obj upl)) \<and>
           files w' (''uploads/'' @ uuid4 M @ ''.mp3'') = Some audio \<and>
           tts_save M cap (''uploads/'' @ uuid4 M @ ''.mp3'') = Saved audio \<and>
           get_audio w' (uuid4 M @ ''.mp3'') =
             Inr (FileResponse (''uploads/'' @ uuid4 M @ ''.mp3'') ''audio/mpeg'')"
proof -
  let ?fp = "''uploads/'' @ uuid4 M @ ''.'' @ file_ext_of (filename upl)"
  let ?tf = "''uploads/'' @ uuid4 M @ ''.mp3''"
  from analyze_image_success [OF assms] obtain cap w2 audio where
    ext: "file_ext_of (filename upl) \<in> allowed_extensions" and
    d: "describe_scene M (write_file ?fp (data (file_obj upl)) w) ?fp
          default_detection_threshold default_max_caption_length = (Inr cap, w2)" and
    s: "tts_save M cap ?tf = Saved audio" and
    resp: "resp = JSONResponse [(''caption'', cap), (''audio_url'', ''/audio/'' @ uuid4 M @ ''.mp3'')]" and
    w': "w' = write_file ?tf audio (invoke Speech w2)"
    by blast
  from describe_scene_files [of M "write_file ?fp (data (file_obj upl)) w" ?fp
      default_detection_threshold default_max_caption_length] d
  have f2: "files w2 = (files w)(?fp \<mapsto> data (file_obj upl))"
    by (simp add: write_file_def)
  have ne: "?fp \<noteq> ?tf"
    using ext by (rule jpg_jpeg_png_not_mp3)
  have a: "files w' ?tf = Some audio"
    by (simp add: w' write_file_def invoke_def)
  have i: "files w' ?fp = Some (data (file_obj upl))"
    using ne by (simp add: w' write_file_def invoke_def f2 del: append_Cons append_Nil
        append.simps)
  have "CHR ''/'' \<notin> set (uuid4 M @ ''.mp3'')"
    using uuid4_str_no_dot_slash(2) [OF assms(1)] by simp
  from path_join_component [OF this] a
  have g: "get_audio w' (uuid4 M @ ''.mp3'') = Inr (FileResponse ?tf ''audio/mpeg'')"
    by (simp add: get_audio_def Let_def)
  from resp i a s g show ?thesis
    by blast
qed

lemma sample_uuid4: "is_uuid4_str (uuid4 sample_env)"
  by (simp add: sample_env_def is_uuid4_str_def)

lemma sample_png_ext: "file_ext_of (filename (small_upload ''cat.PNG'')) = ''png''"
  by (simp add: small_upload_def file_ext_of_def split_def lower_def lower_chr_def)

lemma sample_png_run:
  "analyze_image sample_env empty_world (small_upload ''cat.PNG'') =
     (Inr (JSONResponse
             [(''caption'', ''RGBxyz''),
              (''audio_url'', ''/audio/3f2b8c1e-9a4d-4e6f-8b7a-0c1d2e3f4a5b.mp3'')]),
      \<lparr>files = [''uploads/3f2b8c1e-9a4d-4e6f-8b7a-0c1d2e3f4a5b.png'' \<mapsto> ''xyz'',
                ''uploads/3f2b8c1e-9a4d-4e6f-8b7a-0c1d2e3f4a5b.mp3'' \<mapsto> ''mp3:RGBxyz''],
       trace = [Invoked Detector, Invoked Captioner, Invoked Speech]\<rparr>)"
proof -
  have ext: "file_ext_of (filename (small_upload ''cat.PNG'')) \<in> allowed_extensions"
    by (simp add: sample_png_ext allowed_extensions_def)
  have size: "length (data (file_obj (small_upload ''cat.PNG''))) \<le> max_file_size"
    by (simp add: small_upload_def max_file_size_def)
  show ?thesis
    unfolding analyze_image_accepted [OF sample_uuid4 ext size] sample_png_ext
    by (simp add: sample_env_def empty_world_def small_upload_def describe_scene_def
        describe_scene_try_def decode_stage_def detect_stage_def caption_stage_def
        index_first_def mask_select_def ge_mask_def invoke_def write_file_def
        default_detection_threshold_def default_max_caption_length_def)
qed

theorem analyze_image_success_response_witness:
  "is_uuid4_str (uuid4 sample_env) \<and>
   fst (analyze_image sample_env empty_world (small_upload ''cat.PNG'')) =
     Inr (JSONResponse
            [(''caption'', ''RGBxyz''),
             (''audio_url'', ''/audio/3f2b8c1e-9a4d-4e6f-8b7a-0c1d2e3f4a5b.mp3'')]) \<and>
   get_audio (snd (analyze_image sample_env empty_world (small_upload ''cat.PNG'')))
       ''3f2b8c1e-9a4d-4e6f-8b7a-0c1d2e3f4a5b.mp3'' =
     Inr (FileResponse ''uploads/3f2b8c1e-9a4d-4e6f-8b7a-0c1d2e3f4a5b.mp3'' ''audio/mpeg'')"
proof -
  from analyze_image_success_response [OF sample_uuid4 sample_png_run]
  have "get_audio
          \<lparr>files = [''uploads/3f2b8c1e-9a4d-4e6f-8b7a-0c1d2e3f4a5b.png'' \<mapsto> ''xyz'',
                ''uploads/3f2b8c1e-9a4d-4e6f-8b7a-0c1d2e3f4a5b.mp3'' \<mapsto> ''mp3:RGBxyz''],
            trace = [Invoked Detector, Invoked Captioner, Invoked Speech]\<rparr>
          (uuid4 sample_env @ ''.mp3'') =
        Inr (FileResponse (''uploads/'' @ uuid4 sample_env @ ''.mp3'') ''audio/mpeg'')"
    by blast
  then show ?thesis
    by (simp add: sample_uuid4 sample_png_run) (simp add: sample_env_def)
qed

text \<open>
  C7. When the upload has been written and the request then fails, in the scene
  description or in the synthesis of the speech, the response is an error of status 500
  and the upload is still in the upload directory with the content that was sent. No
  file that existed before the request has been removed, and no path other than the
  upload's and the audio's has been touched.
\<close>

theorem analyze_image_failure_keeps_upload:
  assumes "is_uuid4_str (uuid4 M)"
    and "file_ext_of (filename upl) \<in> allowed_extensions"
    and "length (data (file_obj upl)) \<le> max_file_size"
    and "copy_to_disk M (''uploads/'' @ uuid4 M @ ''.'' @ file_ext_of (filename upl))
           (data (file_obj upl)) = Written"
    and "analyze_image M w upl = (Inl e, w')"
  shows "(\<exists>detail. e = HTTPException 500 detail) \<and>
         files w' (''uploads/'' @ uuid4 M @ ''.'' @ file_ext_of (filename upl)) =
           Some (data (file_obj upl)) \<and>
         dom (files w) \<subseteq> dom (files w') \<and>
         (\<forall>q. q \<noteq> ''uploads/'' @ uuid4 M @ ''.'' @ file_ext_of (filename upl) \<longrightarrow>
              q \<noteq> ''uploads/'' @ uuid4 M @ ''.mp3'' \<longrightarrow> files w' q = files w q)"
proof -
  let ?fp = "''uploads/'' @ uuid4 M @ ''.'' @ file_ext_of (filename upl)"
  let ?tf = "''uploads/'' @ uuid4 M @ ''.mp3''"
  let ?w1 = "write_file ?fp (data (file_obj upl)) w"
  let ?d = "describe_scene M ?w1 ?fp default_detection_threshold default_max_caption_length"
  obtain r w2 where d: "?d = (r, w2)"
    by (cases ?d)
  from describe_scene_files [of M ?w1 ?fp default_detection_threshold
      default_max_caption_length] d
  have f2: "files w2 = (files w)(?fp \<mapsto> data (file_obj upl))"
    by (simp add: write_file_def)
  from describe_scene_result [of M ?w1 ?fp default_detection_threshold
      default_max_caption_length] d
  have r: "(\<exists>c. r = Inr c) \<or> (\<exists>m. r = Inl (HTTPException 500 m))"
    by auto
  have ne: "?fp \<noteq> ?tf"
    using assms(2) by (rule jpg_jpeg_png_not_mp3)
  have run: "(case r of
        Inl (HTTPException status detail) \<Rightarrow> (Inl (HTTPException status detail), w2)
      | Inl (Exception m) \<Rightarrow>
          (Inl (HTTPException 500 (''Failed to process image: '' @ m)),
           logger_error (''Failed to process image: '' @ m) w2)
      | Inr cap \<Rightarrow>
          (case gTTS M cap of
             Some m \<Rightarrow>
               (Inl (HTTPException 500 (''Failed to process image: '' @ m)),
                logger_error (''Failed to process image: '' @ m) w2)
           | None \<Rightarrow>
               (case tts_save M cap ?tf of
                  SaveFailed m left \<Rightarrow>
                    (Inl (HTTPException 500 (''Failed to process image: '' @ m)),
                     logger_error (''Failed to process image: '' @ m)
                       (leave_partial ?tf left (invoke Speech w2)))
                | Saved audio \<Rightarrow>
                    (Inr (JSONResponse
                            [(''caption'', cap),
                             (''audio_url'', ''/audio/'' @ uuid4 M @ ''.mp3'')]),
                     write_file ?tf audio (invoke Speech w2))))) = (Inl e, w')"
    using assms(5)
    unfolding analyze_image_accepted [OF assms(1,2,3)] assms(4) d
    by simp
  have w': "(\<exists>detail. e = HTTPException 500 detail) \<and>
            (files w' = files w2 \<or> (\<exists>b. files w' = (files w2)(?tf \<mapsto> b)))"
    using run r
    by (auto simp add: logger_error_def leave_partial_def write_file_def invoke_def
        split: sum.splits py_exn.splits option.splits save_outcome.splits)
  then have e: "\<exists>detail. e = HTTPException 500 detail"
    by simp
  from w' have fw: "files w' = files w2 \<or> (\<exists>b. files w' = (files w2)(?tf \<mapsto> b))"
    by simp
  have kept: "files w' ?fp = Some (data (file_obj upl))"
    using fw ne f2 by (auto simp del: append_Cons append_Nil append.simps)
  have doms: "dom (files w) \<subseteq> dom (files w')"
    using fw f2 by auto
  have others: "files w' q = files w q" if "q \<noteq> ?fp" "q \<noteq> ?tf" for q
    using fw f2 that by (auto simp del: append_Cons append_Nil append.simps)
  from e kept doms others show ?thesis
    by blast
qed

theorem analyze_image_failure_keeps_upload_witness:
  "is_uuid4_str (uuid4 failing_detector_env) \<and>
   fst (analyze_image failing_detector_env empty_world (small_upload ''cat.PNG'')) =
     Inl (HTTPException 500 ''Error in scene description: CUDA out of memory'') \<and>
   files (snd (analyze_image failing_detector_env empty_world (small_upload ''cat.PNG'')))
       ''uploads/3f2b8c1e-9a4d-4e6f-8b7a-0c1d2e3f4a5b.png'' = Some ''xyz''"
proof -
  have u: "is_uuid4_str (uuid4 failing_detector_env)"
    using sample_uuid4 by (simp add: failing_detector_env_def)
  have ext: "file_ext_of (filename (small_upload ''cat.PNG'')) \<in> allowed_extensions"
    by (simp add: sample_png_ext allowed_extensions_def)
  have size: "length (data (file_obj (small_upload ''cat.PNG''))) \<le> max_file_size"
    by (simp add: small_upload_def max_file_size_def)
  have wr: "copy_to_disk failing_detector_env
      (''uploads/'' @ uuid4 failing_detector_env @ ''.'' @
         file_ext_of (filename (small_upload ''cat.PNG'')))
      (data (file_obj (small_upload ''cat.PNG''))) = Written"
    by (simp add: failing_detector_env_def sample_env_def)
  have run: "fst (analyze_image failing_detector_env empty_world (small_upload ''cat.PNG'')) =
     Inl (HTTPException 500 ''Error in scene description: CUDA out of memory'')"
    unfolding analyze_image_accepted [OF u ext size] sample_png_ext
    by (simp add: failing_detector_env_def sample_env_def empty_world_def small_upload_def
        describe_scene_def describe_scene_try_def decode_stage_def detect_stage_def
        invoke_def write_file_def)
  then have "analyze_image failing_detector_env empty_world (small_upload ''cat.PNG'') =
     (Inl (HTTPException 500 ''Error in scene description: CUDA out of memory''),
      snd (analyze_image failing_detector_env empty_world (small_upload ''cat.PNG'')))"
    by (simp add: prod_eq_iff)
  from analyze_image_failure_keeps_upload [OF u ext size wr this]
  have kept: "files (snd (analyze_image failing_detector_env empty_world
                            (small_upload ''cat.PNG'')))
      (''uploads/'' @ uuid4 failing_detector_env @ ''.'' @
         file_ext_of (filename (small_upload ''cat.PNG''))) =
      Some (data (file_obj (small_upload ''cat.PNG'')))"
    by blast
  have p: "''uploads/'' @ uuid4 failing_detector_env @ ''.'' @
             file_ext_of (filename (small_upload ''cat.PNG'')) =
           ''uploads/3f2b8c1e-9a4d-4e6f-8b7a-0c1d2e3f4a5b.png''"
    by (simp add: sample_png_ext failing_detector_env_def sample_env_def)
  have c: "data (file_obj (small_upload ''cat.PNG'')) = ''xyz''"
    by (simp add: small_upload_def)
  from kept have "files (snd (analyze_image failing_detector_env empty_world
                                (small_upload ''cat.PNG'')))
      ''uploads/3f2b8c1e-9a4d-4e6f-8b7a-0c1d2e3f4a5b.png'' = Some ''xyz''"
    unfolding p c .
  with u run show ?thesis
    by blast
qed



end
